theory Spec2Isabelle
  imports Main "HOL-Library.Word"
begin

section \<open>C++ types and the type traits used by Host.h\<close>

text \<open>
  The templates of \<^verbatim>\<open>ThunkLibs/include/common/Host.h\<close> dispatch on the category of
  their type argument through \<^verbatim>\<open>std::is_class_v\<close>, \<^verbatim>\<open>std::is_union_v\<close>,
  \<^verbatim>\<open>std::is_enum_v\<close>, \<^verbatim>\<open>std::is_void_v\<close>, \<^verbatim>\<open>std::is_pointer_v\<close> and
  \<^verbatim>\<open>std::is_function_v\<close>. A type is a term of \<open>ctype\<close>; an enumeration carries its
  underlying integer type, a function type its result and parameter types.
\<close>

datatype ctype =
    TVoid
  | TChar
  | TInt
  | TLong
  | TUnsignedChar
  | TUnsignedInt
  | TUnsignedLong
  | TPointer ctype
  | TFunction ctype "ctype list"
  | TStruct string
  | TUnion string
  | TEnum string ctype

fun is_class_v :: "ctype \<Rightarrow> bool" where
  "is_class_v (TStruct n) = True"
| "is_class_v t = False"

fun is_union_v :: "ctype \<Rightarrow> bool" where
  "is_union_v (TUnion n) = True"
| "is_union_v t = False"

fun is_enum_v :: "ctype \<Rightarrow> bool" where
  "is_enum_v (TEnum n u) = True"
| "is_enum_v t = False"

fun is_void_v :: "ctype \<Rightarrow> bool" where
  "is_void_v TVoid = True"
| "is_void_v t = False"

fun is_pointer_v :: "ctype \<Rightarrow> bool" where
  "is_pointer_v (TPointer t) = True"
| "is_pointer_v t = False"

fun is_function_v :: "ctype \<Rightarrow> bool" where
  "is_function_v (TFunction r as) = True"
| "is_function_v t = False"

text \<open>
  A failed \<^verbatim>\<open>static_assert\<close>, an unsatisfied \<^verbatim>\<open>requires\<close> clause or a failed
  \<^verbatim>\<open>std::enable_if_t\<close> stops compilation. The constructors name the check of Host.h
  that failed.
\<close>

datatype compile_error =
    GuestLayoutOfClass
  | GuestLayoutOfUnion
  | GuestLayoutOfEnum
  | GuestLayoutOfVoid
  | GuestLayoutOfFunction
  | HostLayoutOfClass
  | HostLayoutOfUnion
  | HostLayoutOfVoid
  | HostLayoutOfFunction
  | HostLayoutOfFunctionPointer
  | HostLayoutSizeMismatch
  | AssignRequiresFunctionType
  | AnnotationCountMismatch
  | CBIndexOutOfRange
  | NoHiddenRegisterMacro

section \<open>Pointer wrappers: \<^verbatim>\<open>guest_layout<T*>\<close> and \<^verbatim>\<open>host_layout<T*>\<close>\<close>

text \<open>
  \<^verbatim>\<open>guest_layout<T*>\<close> and \<^verbatim>\<open>guest_layout<T* const>\<close> have one member,
  \<^verbatim>\<open>type data\<close>, where \<^verbatim>\<open>type\<close> is \<^verbatim>\<open>uint32_t\<close> when \<^verbatim>\<open>IS_32BIT_THUNK\<close> is
  defined and \<^verbatim>\<open>uint64_t\<close> otherwise. The host is 64-bit: \<^verbatim>\<open>uintptr_t\<close> and host
  pointers are 64-bit words. The macro is the boolean parameter \<open>is32\<close>.
\<close>

type_synonym uintptr_t = "64 word"

datatype guest_uint = UInt32 "32 word" | UInt64 "64 word"

record guest_layout_ptr =
  gdata :: guest_uint

record host_layout_ptr =
  hdata :: uintptr_t

fun width :: "guest_uint \<Rightarrow> nat" where
  "width (UInt32 w) = 32"
| "width (UInt64 w) = 64"

fun bits_of :: "guest_uint \<Rightarrow> nat" where
  "bits_of (UInt32 w) = unat w"
| "bits_of (UInt64 w) = unat w"

definition guest_pointer_width :: "bool \<Rightarrow> nat" where
  "guest_pointer_width is32 = (if is32 then 32 else 64)"

text \<open>The implicit conversion of a \<^verbatim>\<open>uintptr_t\<close> to \<^verbatim>\<open>type\<close> in \<^verbatim>\<open>data = ...\<close>.\<close>

definition to_type :: "bool \<Rightarrow> uintptr_t \<Rightarrow> guest_uint" where
  "to_type is32 x = (if is32 then UInt32 (ucast x) else UInt64 x)"

text \<open>The conversion \<^verbatim>\<open>uintptr_t { data }\<close> and \<^verbatim>\<open>(uintptr_t)from.data\<close>.\<close>

fun to_uintptr :: "guest_uint \<Rightarrow> uintptr_t" where
  "to_uintptr (UInt32 w) = ucast w"
| "to_uintptr (UInt64 w) = w"

text \<open>
  \<^verbatim>\<open>guest_layout& operator=(const T* from) requires (std::is_function_v<T>)\<close>, the same
  in both specialisations: \<^verbatim>\<open>data = reinterpret_cast<uintptr_t>(from)\<close>.
\<close>

definition guest_layout_ptr_assign ::
  "bool \<Rightarrow> ctype \<Rightarrow> guest_layout_ptr \<Rightarrow> uintptr_t \<Rightarrow> compile_error + guest_layout_ptr" where
  "guest_layout_ptr_assign is32 T g from =
     (if is_function_v T then Inr (g\<lparr>gdata := to_type is32 from\<rparr>)
      else Inl AssignRequiresFunctionType)"

text \<open>
  \<^verbatim>\<open>get_pointer()\<close> returns \<^verbatim>\<open>reinterpret_cast<guest_layout<T>*>(uintptr_t { data })\<close>
  and leaves the wrapper as it is.
\<close>

definition get_pointer :: "guest_layout_ptr \<Rightarrow> uintptr_t \<times> guest_layout_ptr" where
  "get_pointer g = (to_uintptr (gdata g), g)"

text \<open>
  \<^verbatim>\<open>explicit host_layout(const guest_layout<T*>& from) : data { (T*)(uintptr_t)from.data }\<close>
  under \<^verbatim>\<open>static_assert(!std::is_function_v<T>, ...)\<close>.
\<close>

definition host_layout_ptr_ctor :: "ctype \<Rightarrow> guest_layout_ptr \<Rightarrow> compile_error + host_layout_ptr" where
  "host_layout_ptr_ctor T from =
     (if is_function_v T then Inl HostLayoutOfFunctionPointer
      else Inr \<lparr>hdata = to_uintptr (gdata from)\<rparr>)"

text \<open>
  \<^verbatim>\<open>to_guest(const host_layout<T*>& from)\<close>:
  \<^verbatim>\<open>guest_layout<T*> ret; ret.data = reinterpret_cast<uintptr_t>(from.data); return ret;\<close>.
  There is no check of the upper bits (the source has a TODO for it).
\<close>

definition to_guest_ptr :: "bool \<Rightarrow> host_layout_ptr \<Rightarrow> guest_layout_ptr" where
  "to_guest_ptr is32 from = \<lparr>gdata = to_type is32 (hdata from)\<rparr>"

text \<open>The round trip \<^verbatim>\<open>to_guest(host_layout<T*>{g})\<close>.\<close>

definition round_trip_ptr :: "bool \<Rightarrow> ctype \<Rightarrow> guest_layout_ptr \<Rightarrow> compile_error + guest_layout_ptr" where
  "round_trip_ptr is32 T g =
     (case host_layout_ptr_ctor T g of
        Inl e \<Rightarrow> Inl e
      | Inr h \<Rightarrow> Inr (to_guest_ptr is32 h))"

text \<open>A wrapper is well typed under the macro when its member has the selected type.\<close>

definition guest_layout_ptr_ok :: "bool \<Rightarrow> guest_layout_ptr \<Rightarrow> bool" where
  "guest_layout_ptr_ok is32 g = (width (gdata g) = guest_pointer_width is32)"

section \<open>The templates \<^verbatim>\<open>guest_layout<T>\<close> and \<^verbatim>\<open>host_layout<T>\<close> of Host.h\<close>

text \<open>
  Instantiating \<^verbatim>\<open>guest_layout<T>\<close> with the declarations of Host.h alone. A pointer
  type selects the specialisation \<^verbatim>\<open>guest_layout<T*>\<close> (or \<^verbatim>\<open>guest_layout<T* const>\<close>),
  whose member is \<^verbatim>\<open>uint32_t\<close> or \<^verbatim>\<open>uint64_t\<close> and which has no static assertion.
  Every other type selects the primary (generic) template, which evaluates four static
  assertions and declares \<^verbatim>\<open>type data\<close> with
  \<^verbatim>\<open>type = std::enable_if_t<!std::is_pointer_v<T>, T>\<close>; a member of function type is
  ill-formed. The result is the type of the member \<^verbatim>\<open>data\<close>.
\<close>

definition guest_layout_generic :: "bool \<Rightarrow> ctype \<Rightarrow> compile_error + ctype" where
  "guest_layout_generic is32 T =
     (if is_pointer_v T then Inr (if is32 then TUnsignedInt else TUnsignedLong)
      else if is_class_v T then Inl GuestLayoutOfClass
      else if is_union_v T then Inl GuestLayoutOfUnion
      else if is_enum_v T then Inl GuestLayoutOfEnum
      else if is_void_v T then Inl GuestLayoutOfVoid
      else if is_function_v T then Inl GuestLayoutOfFunction
      else Inr T)"

text \<open>
  Instantiating \<^verbatim>\<open>host_layout<T>\<close> with the declarations of Host.h alone. A pointer type
  selects \<^verbatim>\<open>host_layout<T*>\<close> (or \<^verbatim>\<open>host_layout<T* const>\<close>), with the member
  \<^verbatim>\<open>T* data\<close> and a static assertion that the pointee is not a function type. Every
  other type selects the primary template, which has three static assertions (class,
  union, void) and none for enumerations; its member is \<^verbatim>\<open>T data\<close>, ill-formed for a
  function type.
\<close>

definition host_layout_generic :: "ctype \<Rightarrow> compile_error + ctype" where
  "host_layout_generic T =
     (case T of
        TPointer pointee \<Rightarrow>
          if is_function_v pointee then Inl HostLayoutOfFunctionPointer else Inr T
      | _ \<Rightarrow>
          if is_class_v T then Inl HostLayoutOfClass
          else if is_union_v T then Inl HostLayoutOfUnion
          else if is_void_v T then Inl HostLayoutOfVoid
          else if is_function_v T then Inl HostLayoutOfFunction
          else Inr T)"

text \<open>
  \<^verbatim>\<open>sizeof\<close> on the 64-bit host (LP64) for the types that have a size here; an
  enumeration has the size of its underlying type. Void, function and class types are
  given 0: instantiation fails for them before any size is compared.
\<close>

fun sizeof :: "ctype \<Rightarrow> nat" where
  "sizeof TChar = 1"
| "sizeof TUnsignedChar = 1"
| "sizeof TInt = 4"
| "sizeof TUnsignedInt = 4"
| "sizeof TLong = 8"
| "sizeof TUnsignedLong = 8"
| "sizeof (TPointer t) = 8"
| "sizeof (TEnum n u) = sizeof u"
| "sizeof TVoid = 0"
| "sizeof (TFunction r as) = 0"
| "sizeof (TStruct n) = 0"
| "sizeof (TUnion n) = 0"

fun is_arithmetic_v :: "ctype \<Rightarrow> bool" where
  "is_arithmetic_v TChar = True"
| "is_arithmetic_v TUnsignedChar = True"
| "is_arithmetic_v TInt = True"
| "is_arithmetic_v TUnsignedInt = True"
| "is_arithmetic_v TLong = True"
| "is_arithmetic_v TUnsignedLong = True"
| "is_arithmetic_v t = False"

text \<open>
  An object of a type \<^verbatim>\<open>guest_layout<T>\<close> for a scalar \<open>T\<close>: the size of the wrapper,
  whether the integer type of its member \<^verbatim>\<open>data\<close> is signed, and the bit pattern
  stored in \<^verbatim>\<open>data\<close>. Specialisations of \<^verbatim>\<open>guest_layout\<close> are written by the
  generator, so the size is a field of the object and not derived from \<open>T\<close>.
\<close>

record guest_layout_val =
  gl_sizeof :: nat
  gl_signed :: bool
  gl_data :: nat

record host_layout_val =
  hl_data :: nat

text \<open>The integer a guest member denotes: two's complement when its type is signed.\<close>

definition gl_value :: "guest_layout_val \<Rightarrow> int" where
  "gl_value g =
     (if gl_signed g \<and> 2 ^ (8 * gl_sizeof g - 1) \<le> gl_data g
      then int (gl_data g) - 2 ^ (8 * gl_sizeof g)
      else int (gl_data g))"

text \<open>
  \<^verbatim>\<open>static_cast<T>(from.data)\<close> for an enumeration \<open>T\<close>: the integer is converted to the
  underlying type of \<open>T\<close>, that is, reduced modulo 2 to the width of that type.
\<close>

definition static_cast_enum :: "ctype \<Rightarrow> guest_layout_val \<Rightarrow> nat" where
  "static_cast_enum T g = nat (gl_value g mod 2 ^ (8 * sizeof T))"

text \<open>
  Constructing \<^verbatim>\<open>host_layout<T>\<close> from a \<^verbatim>\<open>guest_layout<T>\<close>. The primary template
  has two constructors:
  \<^verbatim>\<open>explicit host_layout(const guest_layout<T>& from) requires (!std::is_enum_v<T>) : data { from.data }\<close>
  with \<^verbatim>\<open>static_assert(sizeof(data) == sizeof(from))\<close> in its body, and
  \<^verbatim>\<open>explicit host_layout(const guest_layout<T>& from) requires (std::is_enum_v<T>) : data { static_cast<T>(from.data) }\<close>
  with an empty body. The pointer specialisations have
  \<^verbatim>\<open>data { (T*)(uintptr_t)from.data }\<close>, the zero-extension of the unsigned guest member,
  which leaves the bit pattern as a number unchanged, and no size assertion.
\<close>

definition host_layout_ctor :: "ctype \<Rightarrow> guest_layout_val \<Rightarrow> compile_error + host_layout_val" where
  "host_layout_ctor T from =
     (case host_layout_generic T of
        Inl e \<Rightarrow> Inl e
      | Inr member \<Rightarrow>
          if is_pointer_v T then Inr \<lparr>hl_data = gl_data from\<rparr>
          else if \<not> is_enum_v T then
            (if sizeof member = gl_sizeof from then Inr \<lparr>hl_data = gl_data from\<rparr>
             else Inl HostLayoutSizeMismatch)
          else Inr \<lparr>hl_data = static_cast_enum T from\<rparr>)"

section \<open>Host-to-guest callbacks: \<^verbatim>\<open>CallbackUnpack<Result(Args...)>::CallGuestPtr\<close>\<close>

text \<open>
  Modelled from the spec: \<^verbatim>\<open>PackedArguments.h\<close> is included by Host.h and is not among
  the sources. Section 3 of the specification describes \<^verbatim>\<open>PackedArguments<R, A...>\<close>
  as a flat record with a return slot \<^verbatim>\<open>rv\<close> and argument slots \<^verbatim>\<open>a0\<close>, \<^verbatim>\<open>a1\<close>,
  ..., one per type argument, addressed by compile-time index. Slot \<^verbatim>\<open>a\<close>\<open>i\<close> is
  \<open>slots r ! i\<close>.
\<close>

record 'v PackedArguments =
  rv :: 'v
  slots :: "'v list"

text \<open>
  \<^verbatim>\<open>struct GuestcallInfo\<close>. The member \<^verbatim>\<open>CallCallback\<close> is a function pointer of type
  \<^verbatim>\<open>void (*)(uintptr_t GuestUnpacker, uintptr_t GuestTarget, void* argsrv)\<close>; it receives
  the address of the packed record and may write to it, so its behaviour is a function
  from the record before the call to the record after it.
\<close>

record 'v GuestcallInfo =
  HostPacker :: uintptr_t
  CallCallback :: "uintptr_t \<Rightarrow> uintptr_t \<Rightarrow> 'v PackedArguments \<Rightarrow> 'v PackedArguments"
  GuestUnpacker :: uintptr_t
  GuestTarget :: uintptr_t

datatype host_arch = M_X86_64 | M_ARM_64 | M_OTHER

datatype host_register = R11 | X11

datatype runtime_fault =
    InvalidGuestcallPointer
  | CallThroughNullWeakSymbol
  | IllTypedPackedArguments
  | UninitializedCallback

datatype failure = CompileError compile_error | RuntimeFault runtime_fault

text \<open>
  \<^verbatim>\<open>LOAD_INTERNAL_GUESTPTR_VIA_CUSTOM_ABI(target_variable)\<close> is
  \<^verbatim>\<open>asm volatile("mov %%r11, %0" : "=r" (target_variable))\<close> under \<^verbatim>\<open>_M_X86_64\<close> and
  \<^verbatim>\<open>asm volatile("mov %0, x11" : "=r" (target_variable))\<close> under \<^verbatim>\<open>_M_ARM_64\<close>; with
  neither macro defined it is not defined at all and its use does not compile.
\<close>

definition LOAD_INTERNAL_GUESTPTR_VIA_CUSTOM_ABI ::
  "host_arch \<Rightarrow> (host_register \<Rightarrow> uintptr_t) \<Rightarrow> compile_error + uintptr_t" where
  "LOAD_INTERNAL_GUESTPTR_VIA_CUSTOM_ABI arch regs =
     (case arch of
        M_X86_64 \<Rightarrow> Inr (regs R11)
      | M_ARM_64 \<Rightarrow> Inr (regs X11)
      | M_OTHER \<Rightarrow> Inl NoHiddenRegisterMacro)"

text \<open>One invocation of \<^verbatim>\<open>CallCallback\<close>: the two integer arguments and the record passed.\<close>

type_synonym 'v callback_call = "uintptr_t \<times> uintptr_t \<times> 'v PackedArguments"

text \<open>
  \<^verbatim>\<open>static Result CallGuestPtr(Args... args)\<close>. The parameters of the model: the host
  architecture, whether \<^verbatim>\<open>Result\<close> is void, the register file, the memory holding
  \<^verbatim>\<open>GuestcallInfo\<close> objects, the content of \<^verbatim>\<open>rv\<close> left by the initialisation
  \<^verbatim>\<open>packed_args = { args... }\<close>, the arguments, and the calls of \<^verbatim>\<open>CallCallback\<close>
  made so far. The result is the returned value (\<open>None\<close> for a void function) and the
  extended list of calls.
\<close>

definition CallGuestPtr ::
  "host_arch \<Rightarrow> bool \<Rightarrow> (host_register \<Rightarrow> uintptr_t) \<Rightarrow> (uintptr_t \<rightharpoonup> 'v GuestcallInfo) \<Rightarrow>
   'v \<Rightarrow> 'v list \<Rightarrow> 'v callback_call list \<Rightarrow> failure + ('v option \<times> 'v callback_call list)" where
  "CallGuestPtr arch result_is_void regs mem rv0 args calls =
     (case LOAD_INTERNAL_GUESTPTR_VIA_CUSTOM_ABI arch regs of
        Inl e \<Rightarrow> Inl (CompileError e)
      | Inr guestcall \<Rightarrow>
          (case mem guestcall of
             None \<Rightarrow> Inl (RuntimeFault InvalidGuestcallPointer)
           | Some info \<Rightarrow>
               (let packed_args = \<lparr>rv = rv0, slots = args\<rparr>;
                    packed_args' =
                      CallCallback info (GuestUnpacker info) (GuestTarget info) packed_args;
                    calls' = calls @ [(GuestUnpacker info, GuestTarget info, packed_args)]
                in Inr (if \<not> result_is_void then Some (rv packed_args') else None, calls'))))"

section \<open>Guest-to-host callbacks: \<^verbatim>\<open>GuestWrapperForHostFunction<Result(Args...)>::Call\<close>\<close>

record ParameterAnnotations =
  is_passthrough :: bool
  assume_compatible :: bool

text \<open>
  The chain of \<^verbatim>\<open>if constexpr (CBIndex == k) cb = args->a\<close>\<open>k\<close> in \<^verbatim>\<open>Call\<close>: the index of
  the member that is read, or \<open>None\<close> when no branch is taken and \<^verbatim>\<open>cb\<close> stays
  uninitialised.
\<close>

definition CBIndex_member :: "nat \<Rightarrow> nat option" where
  "CBIndex_member CBIndex =
     (if CBIndex = 0 then Some 0
      else if CBIndex = 1 then Some 1
      else if CBIndex = 2 then Some 2
      else if CBIndex = 3 then Some 3
      else if CBIndex = 4 then Some 4
      else if CBIndex = 5 then Some 5
      else if CBIndex = 6 then Some 6
      else if CBIndex = 7 then Some 7
      else if CBIndex = 8 then Some 8
      else if CBIndex = 9 then Some 9
      else if CBIndex = 10 then Some 10
      else if CBIndex = 11 then Some 11
      else if CBIndex = 12 then Some 12
      else if CBIndex = 13 then Some 13
      else if CBIndex = 14 then Some 14
      else if CBIndex = 15 then Some 15
      else if CBIndex = 16 then Some 16
      else if CBIndex = 17 then Some 17
      else if CBIndex = 18 then Some 18
      else if CBIndex = 23 then Some 23
      else None)"

text \<open>
  The layout wrappers of class, union and enumeration types are written by the generator,
  which is not among the sources; Host.h only declares the templates they specialise.
  They are a parameter: \<open>generated T = Some s\<close> when a complete specialisation
  \<^verbatim>\<open>guest_layout<T>\<close> of size \<open>s\<close> has been emitted (together with \<^verbatim>\<open>host_layout<T>\<close>
  and its converting constructor when \<open>T\<close> is a class or union), \<open>None\<close> when
  \<^verbatim>\<open>guest_layout<T>\<close> is what Host.h alone declares.
\<close>

type_synonym generated_wrappers = "ctype \<Rightarrow> nat option"

text \<open>\<^verbatim>\<open>sizeof(guest_layout<T>)\<close>, which requires \<^verbatim>\<open>guest_layout<T>\<close> to be complete.\<close>

definition guest_layout_sizeof :: "generated_wrappers \<Rightarrow> bool \<Rightarrow> ctype \<Rightarrow> compile_error + nat" where
  "guest_layout_sizeof generated is32 T =
     (case generated T of
        Some s \<Rightarrow> Inr s
      | None \<Rightarrow>
          (case guest_layout_generic is32 T of
             Inl e \<Rightarrow> Inl e
           | Inr member \<Rightarrow> Inr (sizeof member)))"

text \<open>
  Whether \<^verbatim>\<open>Projection<Annotation, T>(guest_layout<T>& data)\<close> compiles. Under
  \<^verbatim>\<open>if constexpr (Annotation.is_passthrough)\<close> it returns \<^verbatim>\<open>data\<close>; otherwise it
  returns \<^verbatim>\<open>host_layout<T> { data }.data\<close>, which instantiates \<^verbatim>\<open>host_layout<T>\<close>
  and its constructor from \<^verbatim>\<open>guest_layout<T>\<close>.
\<close>

definition Projection_check ::
  "generated_wrappers \<Rightarrow> bool \<Rightarrow> ParameterAnnotations \<Rightarrow> ctype \<Rightarrow> compile_error + unit" where
  "Projection_check generated is32 Annotation T =
     (if is_passthrough Annotation then Inr ()
      else if (is_class_v T \<or> is_union_v T) \<and> generated T \<noteq> None then Inr ()
      else
        (case host_layout_generic T of
           Inl e \<Rightarrow> Inl e
         | Inr member \<Rightarrow>
             if is_pointer_v T \<or> is_enum_v T then Inr ()
             else
               (case guest_layout_sizeof generated is32 T of
                  Inl e \<Rightarrow> Inl e
                | Inr s \<Rightarrow> if sizeof member = s then Inr () else Inl HostLayoutSizeMismatch)))"

fun first_error :: "(compile_error + 'a) list \<Rightarrow> compile_error option" where
  "first_error [] = None"
| "first_error (Inl e # xs) = Some e"
| "first_error (Inr x # xs) = first_error xs"

text \<open>
  Whether \<^verbatim>\<open>GuestWrapperForHostFunction<Result(Args...)>::Call<Annotations...>\<close>
  compiles, in the order of the source: the static assertion on the number of
  annotations; the record type
  \<^verbatim>\<open>PackedArguments<Result, guest_layout<Args>..., uintptr_t>\<close>, whose members need
  every \<^verbatim>\<open>guest_layout<Args>\<close> complete; the static assertion on
  \<^verbatim>\<open>CBIndex = sizeof...(Args)\<close>; and the lambda, which calls
  \<^verbatim>\<open>Projection<Annotations, Args>(args)...\<close>. The result is the index of the member
  read into \<^verbatim>\<open>cb\<close>.
\<close>

definition Call_check ::
  "generated_wrappers \<Rightarrow> bool \<Rightarrow> ParameterAnnotations list \<Rightarrow> ctype list \<Rightarrow>
   compile_error + nat option" where
  "Call_check generated is32 Annotations Args =
     (if length Annotations \<noteq> length Args then Inl AnnotationCountMismatch
      else
        (case first_error (map (guest_layout_sizeof generated is32) Args) of
           Some e \<Rightarrow> Inl e
         | None \<Rightarrow>
             (let CBIndex = length Args in
              if \<not> (CBIndex \<le> 18 \<or> CBIndex = 23) then Inl CBIndexOutOfRange
              else
                (case first_error
                        (map (\<lambda>(Annotation, T). Projection_check generated is32 Annotation T)
                           (zip Annotations Args)) of
                   Some e \<Rightarrow> Inl e
                 | None \<Rightarrow> Inr (CBIndex_member CBIndex)))))"

text \<open>
  The objects in the slots of the record \<^verbatim>\<open>Call\<close> receives: a scalar wrapper, a
  pointer wrapper, an object of a generated wrapper (opaque here), or the
  \<^verbatim>\<open>uintptr_t\<close> of the trailing slot. The callback receives, per argument, the guest
  object itself (passthrough) or the member \<^verbatim>\<open>data\<close> of its \<^verbatim>\<open>host_layout\<close>.
\<close>

datatype slot =
    GScalar guest_layout_val
  | GPointer guest_layout_ptr
  | GGenerated nat
  | Word uintptr_t

datatype host_object =
    HGuest slot
  | HScalar host_layout_val
  | HPointer host_layout_ptr
  | HGenerated nat

text \<open>
  \<^verbatim>\<open>Projection<Annotation, T>(data)\<close> on an object. The conversion of a generated
  wrapper is the generated constructor, the parameter \<open>convert\<close>.
\<close>

definition Projection ::
  "(ctype \<Rightarrow> nat \<Rightarrow> nat) \<Rightarrow> ParameterAnnotations \<Rightarrow> ctype \<Rightarrow> slot \<Rightarrow> failure + host_object" where
  "Projection convert Annotation T data =
     (case data of
        Word w \<Rightarrow> Inl (RuntimeFault IllTypedPackedArguments)
      | GScalar v \<Rightarrow>
          if is_passthrough Annotation then Inr (HGuest data)
          else (case host_layout_ctor T v of
                  Inl e \<Rightarrow> Inl (CompileError e)
                | Inr h \<Rightarrow> Inr (HScalar h))
      | GPointer p \<Rightarrow>
          if is_passthrough Annotation then Inr (HGuest data)
          else (case T of
                  TPointer pointee \<Rightarrow>
                    (case host_layout_ptr_ctor pointee p of
                       Inl e \<Rightarrow> Inl (CompileError e)
                     | Inr h \<Rightarrow> Inr (HPointer h))
                | _ \<Rightarrow> Inl (RuntimeFault IllTypedPackedArguments))
      | GGenerated k \<Rightarrow>
          if is_passthrough Annotation then Inr (HGuest data)
          else Inr (HGenerated (convert T k)))"

fun sequence :: "(failure + 'a) list \<Rightarrow> failure + 'a list" where
  "sequence [] = Inr []"
| "sequence (Inl e # xs) = Inl e"
| "sequence (Inr x # xs) = (case sequence xs of Inl e \<Rightarrow> Inl e | Inr ys \<Rightarrow> Inr (x # ys))"

text \<open>One call of the host function behind \<^verbatim>\<open>cb\<close>: its address, its arguments, the target.\<close>

type_synonym host_call = "uintptr_t \<times> host_object list \<times> uintptr_t"

text \<open>
  \<^verbatim>\<open>template<ParameterAnnotations... Annotations> static void Call(void* argsv)\<close>.
  After the checks above it reads \<^verbatim>\<open>cb = args->a\<close>\<open>CBIndex\<close>, casts it to a function
  pointer and runs \<^verbatim>\<open>Invoke(f, *args)\<close>, where \<^verbatim>\<open>f\<close> calls
  \<^verbatim>\<open>callback(Projection<Annotations, Args>(args)..., target)\<close>.

  Modelled from the spec: \<^verbatim>\<open>Invoke\<close> is declared in \<^verbatim>\<open>PackedArguments.h\<close>, which is
  not among the sources. By sections 3 and 4.1 of the specification it passes the slots
  \<^verbatim>\<open>a0\<close>, ..., in order, so that \<^verbatim>\<open>target\<close> is the trailing slot, and the return value
  is written to the return slot \<^verbatim>\<open>rv\<close> unless \<^verbatim>\<open>Result\<close> is void.

  The host function behind an address is the parameter \<open>host_code\<close>. The result is the
  record after the call and the call that was made.
\<close>

definition Call ::
  "(uintptr_t \<Rightarrow> host_object list \<Rightarrow> uintptr_t \<Rightarrow> slot) \<Rightarrow> (ctype \<Rightarrow> nat \<Rightarrow> nat) \<Rightarrow>
   generated_wrappers \<Rightarrow> bool \<Rightarrow> bool \<Rightarrow> ParameterAnnotations list \<Rightarrow> ctype list \<Rightarrow>
   slot PackedArguments \<Rightarrow> failure + (slot PackedArguments \<times> host_call list)" where
  "Call host_code convert generated is32 result_is_void Annotations Args args =
     (case Call_check generated is32 Annotations Args of
        Inl e \<Rightarrow> Inl (CompileError e)
      | Inr None \<Rightarrow> Inl (RuntimeFault UninitializedCallback)
      | Inr (Some k) \<Rightarrow>
          if length (slots args) \<noteq> Suc (length Args)
          then Inl (RuntimeFault IllTypedPackedArguments)
          else
            (case (slots args ! k, last (slots args)) of
               (Word cb, Word target) \<Rightarrow>
                 (case sequence
                         (map (\<lambda>(Annotation, T, data). Projection convert Annotation T data)
                            (zip Annotations (zip Args (slots args)))) of
                    Inl f \<Rightarrow> Inl f
                  | Inr projected \<Rightarrow>
                      Inr (if result_is_void then args
                           else args\<lparr>rv := host_code cb projected target\<rparr>,
                           [(cb, projected, target)]))
             | _ \<Rightarrow> Inl (RuntimeFault IllTypedPackedArguments)))"

section \<open>Trampoline helpers over the weak symbols of FEXCore\<close>

text \<open>
  \<^verbatim>\<open>FEXCore::MakeHostTrampolineForGuestFunction\<close> and
  \<^verbatim>\<open>FEXCore::FinalizeHostTrampolineForGuestFunction\<close> are declared
  \<^verbatim>\<open>__attribute__((weak))\<close>: the address of an unresolved weak symbol is null. A weak
  symbol is an optional function; it acts on the state \<open>'s\<close> of the emulator and returns
  a trampoline pointer. Calling an unresolved one is a call through a null pointer.
\<close>

type_synonym 's weak_make =
  "(uintptr_t \<Rightarrow> uintptr_t \<Rightarrow> uintptr_t \<Rightarrow> 's \<Rightarrow> uintptr_t \<times> 's) option"

type_synonym 's weak_finalize =
  "(uintptr_t \<Rightarrow> uintptr_t \<Rightarrow> 's \<Rightarrow> uintptr_t \<times> 's) option"

text \<open>
  \<^verbatim>\<open>MakeHostTrampolineForGuestFunctionAt(GuestTarget, GuestUnpacker, Func)\<close>:
  \<^verbatim>\<open>*Func = (FuncType*)FEXCore::MakeHostTrampolineForGuestFunction((void*)&CallbackUnpack<FuncType>::CallGuestPtr, GuestTarget, GuestUnpacker)\<close>.
  The parameter \<open>host_packer\<close> is the address of \<^verbatim>\<open>CallGuestPtr\<close>; the result is the
  value stored in \<^verbatim>\<open>*Func\<close> and the new emulator state.
\<close>

definition MakeHostTrampolineForGuestFunctionAt ::
  "'s weak_make \<Rightarrow> uintptr_t \<Rightarrow> uintptr_t \<Rightarrow> uintptr_t \<Rightarrow> 's \<Rightarrow> runtime_fault + (uintptr_t \<times> 's)" where
  "MakeHostTrampolineForGuestFunctionAt MakeSymbol host_packer guest_target guest_unpacker s =
     (case MakeSymbol of
        None \<Rightarrow> Inl CallThroughNullWeakSymbol
      | Some f \<Rightarrow> Inr (f host_packer guest_target guest_unpacker s))"

text \<open>
  \<^verbatim>\<open>FinalizeHostTrampolineForGuestFunction(F* PreallocatedTrampolineForGuestFunction)\<close>
  calls the weak symbol with the trampoline and \<^verbatim>\<open>&CallbackUnpack<F>::CallGuestPtr\<close>
  and drops the returned pointer.
\<close>

definition FinalizeHostTrampolineForGuestFunction ::
  "'s weak_finalize \<Rightarrow> uintptr_t \<Rightarrow> uintptr_t \<Rightarrow> 's \<Rightarrow> runtime_fault + 's" where
  "FinalizeHostTrampolineForGuestFunction FinalizeSymbol host_packer
       PreallocatedTrampolineForGuestFunction s =
     (case FinalizeSymbol of
        None \<Rightarrow> Inl CallThroughNullWeakSymbol
      | Some f \<Rightarrow> Inr (snd (f PreallocatedTrampolineForGuestFunction host_packer s)))"

text \<open>
  The overload taking \<^verbatim>\<open>guest_layout<F*>\<close> passes
  \<^verbatim>\<open>(FEXCore::HostToGuestTrampolinePtr*)PreallocatedTrampolineForGuestFunction.data\<close>.
\<close>

definition FinalizeHostTrampolineForGuestFunction_guest ::
  "'s weak_finalize \<Rightarrow> uintptr_t \<Rightarrow> guest_layout_ptr \<Rightarrow> 's \<Rightarrow> runtime_fault + 's" where
  "FinalizeHostTrampolineForGuestFunction_guest FinalizeSymbol host_packer
       PreallocatedTrampolineForGuestFunction s =
     (case FinalizeSymbol of
        None \<Rightarrow> Inl CallThroughNullWeakSymbol
      | Some f \<Rightarrow>
          Inr (snd (f (to_uintptr (gdata PreallocatedTrampolineForGuestFunction)) host_packer s)))"

section \<open>The thunk generator\<close>

text \<open>
  The generator itself (the data layout analysis and the two emitters) is not among the
  sources; its unit tests in \<^verbatim>\<open>unittests/ThunkLibs/generator.cpp\<close> are. The definitions
  of this section that describe generator output are modelled from the specification and
  say so; the definitions that describe a test case are taken from the test source.
\<close>

text \<open>The declaration of one function of the thunked library, with its annotations.\<close>

record api_function =
  fn_name :: string
  fn_result :: ctype
  fn_params :: "ctype list"
  fn_variadic :: bool
  uniform_va_type :: "ctype option"

record function_decl =
  decl_name :: string
  decl_result :: ctype
  decl_params :: "ctype list"

datatype generation_error = VariadicWithoutUniformVaType

text \<open>
  Modelled from the spec: the guest emitter's packer (section 4.4 and section 8,
  "Signature preservation" and scenario 4); the emitter is not among the sources. The
  packer \<^verbatim>\<open>fexfn_pack_<name>\<close> has the parameter and return types of the declared
  function. For a variadic function the internal packer is
  \<^verbatim>\<open>fexfn_pack_<name>_internal\<close>; the variable arguments become an array of
  \<^verbatim>\<open>uniform_va_type\<close> whose count is an \<^verbatim>\<open>unsigned long\<close> slot before the array
  pointer slot, and a variadic function without \<^verbatim>\<open>uniform_va_type\<close> is an error.
\<close>

definition guest_packer :: "api_function \<Rightarrow> generation_error + function_decl" where
  "guest_packer f =
     (if fn_variadic f then
        (case uniform_va_type f of
           None \<Rightarrow> Inl VariadicWithoutUniformVaType
         | Some T \<Rightarrow>
             Inr \<lparr>decl_name = ''fexfn_pack_'' @ fn_name f @ ''_internal'',
                  decl_result = fn_result f,
                  decl_params = fn_params f @ [TUnsignedLong, TPointer T]\<rparr>)
      else
        Inr \<lparr>decl_name = ''fexfn_pack_'' @ fn_name f,
             decl_result = fn_result f,
             decl_params = fn_params f\<rparr>)"

text \<open>
  The matcher of the test case \<^verbatim>\<open>VariadicFunction\<close>:
  \<^verbatim>\<open>functionDecl(hasName("fexfn_pack_func_internal"), returns(asString("void")), parameterCountIs(3), hasParameter(0, hasType(asString("int"))), hasParameter(1, hasType(asString("unsigned long"))), hasParameter(2, hasType(pointerType(pointee(asString("char"))))))\<close>.
\<close>

definition VariadicFunction_matcher :: "function_decl \<Rightarrow> bool" where
  "VariadicFunction_matcher d =
     (decl_name d = ''fexfn_pack_func_internal'' \<and>
      decl_result d = TVoid \<and>
      length (decl_params d) = 3 \<and>
      decl_params d ! 0 = TInt \<and>
      decl_params d ! 1 = TUnsignedLong \<and>
      decl_params d ! 2 = TPointer TChar)"

text \<open>
  The classification of a type by the data layout analysis, and what the host module
  declares for it.
\<close>

datatype classification = Identical | Repackable | Incompatible | Opaque

datatype specialization = CompleteDefinition | IncompleteDeclaration

datatype overload = DefinedOverload | DeletedOverload

record layout_wrappers =
  guest_layout_decl :: specialization
  host_layout_decl :: specialization
  to_guest_decl :: overload

text \<open>
  Modelled from the spec: the layout wrappers emitted for an aggregate (sections 3 and 8,
  "Layout classification"); the host emitter is not among the sources. For an Identical
  or Repackable aggregate, and for an Incompatible one annotated
  \<^verbatim>\<open>emit_layout_wrappers\<close>, both wrappers and \<^verbatim>\<open>to_guest\<close> are defined. For an
  Incompatible aggregate without the annotation neither wrapper is completely defined and
  \<^verbatim>\<open>to_guest\<close> is deleted. The specification gives no wrappers for an Opaque type.
\<close>

fun emitted_layout_wrappers :: "classification \<Rightarrow> bool \<Rightarrow> layout_wrappers option" where
  "emitted_layout_wrappers Identical emit_layout_wrappers =
     Some \<lparr>guest_layout_decl = CompleteDefinition, host_layout_decl = CompleteDefinition,
           to_guest_decl = DefinedOverload\<rparr>"
| "emitted_layout_wrappers Repackable emit_layout_wrappers =
     Some \<lparr>guest_layout_decl = CompleteDefinition, host_layout_decl = CompleteDefinition,
           to_guest_decl = DefinedOverload\<rparr>"
| "emitted_layout_wrappers Incompatible True =
     Some \<lparr>guest_layout_decl = CompleteDefinition, host_layout_decl = CompleteDefinition,
           to_guest_decl = DefinedOverload\<rparr>"
| "emitted_layout_wrappers Incompatible False =
     Some \<lparr>guest_layout_decl = IncompleteDeclaration, host_layout_decl = IncompleteDeclaration,
           to_guest_decl = DeletedOverload\<rparr>"
| "emitted_layout_wrappers Opaque emit_layout_wrappers = None"

text \<open>
  The checks of the test section \<^verbatim>\<open>LayoutWrappers\<close> / "Incompatible type, unannotated":
  \<^verbatim>\<open>layout_undefined("guest_layout")\<close>, \<^verbatim>\<open>guest_converter_undefined\<close> and
  \<^verbatim>\<open>layout_undefined("host_layout")\<close>, that is, a specialisation for \<^verbatim>\<open>struct A\<close>
  with \<^verbatim>\<open>!decl->isCompleteDefinition()\<close> and a \<^verbatim>\<open>to_guest\<close> with \<^verbatim>\<open>isDeleted()\<close>.
\<close>

definition Incompatible_unannotated_matcher :: "layout_wrappers \<Rightarrow> bool" where
  "Incompatible_unannotated_matcher w =
     (guest_layout_decl w \<noteq> CompleteDefinition \<and>
      to_guest_decl w = DeletedOverload \<and>
      host_layout_decl w \<noteq> CompleteDefinition)"










section \<open>Properties of the pointer wrappers\<close>

lemma ucast_32_64_32: "(ucast (ucast (w :: 32 word) :: 64 word) :: 32 word) = w"
  by (rule ucast_up_ucast_id) (simp add: is_up)

lemma unat_ucast_64_32: "unat (ucast (p :: 64 word) :: 32 word) = unat p mod 2 ^ 32"
  by (simp add: unsigned_ucast_eq take_bit_eq_mod)

lemma unat_mod_64: "unat (p :: 64 word) mod 2 ^ 64 = unat p"
proof -
  have "unat p < 2 ^ LENGTH(64)" by (rule unsigned_less)
  then show ?thesis by simp
qed

text \<open>
  Claim C9, as stated for every pointee type, fails where the pointee is a function type:
  \<^verbatim>\<open>host_layout<T*>\<close> has \<^verbatim>\<open>static_assert(!std::is_function_v<T>, ...)\<close>, so for
  \<^verbatim>\<open>T = int(char, char)\<close> the expression \<^verbatim>\<open>to_guest(host_layout<T*>{g})\<close> does not
  compile and yields no wrapper equal to \<^verbatim>\<open>g\<close>.
\<close>

theorem round_trip_ptr_function_counterexample:
  "round_trip_ptr True (TFunction TInt [TChar, TChar]) \<lparr>gdata = UInt32 5\<rparr>
     \<noteq> Inr \<lparr>gdata = UInt32 5\<rparr>"
  by (simp add: round_trip_ptr_def host_layout_ptr_ctor_def)

text \<open>
  Claim C9, amended: for every pointee type \<open>T\<close> that is not a function type and every
  guest pointer wrapper \<open>g\<close> (whose member has the type selected by \<^verbatim>\<open>IS_32BIT_THUNK\<close>),
  the round trip \<^verbatim>\<open>to_guest(host_layout<T*>{g})\<close> gives back \<open>g\<close>; and converting
  a host pointer \<open>p\<close> to guest layout stores \<open>p\<close> reduced modulo 2 to the guest pointer
  width, with no range check and no error: on a 32-bit guest the upper 32 bits of the host
  address are discarded.
\<close>

theorem round_trip_ptr_identity:
  assumes "\<not> is_function_v T" and "guest_layout_ptr_ok is32 g"
  shows "round_trip_ptr is32 T g = Inr g \<and>
         bits_of (gdata (to_guest_ptr is32 \<lparr>hdata = p\<rparr>)) = unat p mod 2 ^ guest_pointer_width is32"
proof
  show "round_trip_ptr is32 T g = Inr g"
  proof (cases "gdata g")
    case (UInt32 w)
    with assms have "is32"
      by (simp add: guest_layout_ptr_ok_def guest_pointer_width_def split: if_splits)
    with UInt32 assms(1) show ?thesis
      by (simp add: round_trip_ptr_def host_layout_ptr_ctor_def to_guest_ptr_def to_type_def
          ucast_32_64_32)
  next
    case (UInt64 w)
    with assms have "\<not> is32"
      by (simp add: guest_layout_ptr_ok_def guest_pointer_width_def split: if_splits)
    with UInt64 assms(1) show ?thesis
      by (simp add: round_trip_ptr_def host_layout_ptr_ctor_def to_guest_ptr_def to_type_def)
  qed
  show "bits_of (gdata (to_guest_ptr is32 \<lparr>hdata = p\<rparr>)) = unat p mod 2 ^ guest_pointer_width is32"
    using unat_mod_64 [of p]
    by (simp add: to_guest_ptr_def to_type_def guest_pointer_width_def unat_ucast_64_32)
qed

theorem round_trip_ptr_identity_witness:
  "round_trip_ptr True (TPointer TVoid) \<lparr>gdata = UInt32 0xDEADBEEF\<rparr>
     = Inr \<lparr>gdata = UInt32 0xDEADBEEF\<rparr> \<and>
   bits_of (gdata (to_guest_ptr True \<lparr>hdata = 0x100000010\<rparr>)) = 16"
  using round_trip_ptr_identity
    [of "TPointer TVoid" True "\<lparr>gdata = UInt32 0xDEADBEEF\<rparr>" "0x100000010"]
  by (simp add: guest_layout_ptr_ok_def guest_pointer_width_def)

lemma to_type_ok: "width (to_type is32 x) = guest_pointer_width is32"
  by (simp add: to_type_def guest_pointer_width_def)

lemma bits_of_to_type: "bits_of (to_type is32 p) = unat p mod 2 ^ guest_pointer_width is32"
  using unat_mod_64 [of p]
  by (simp add: to_type_def guest_pointer_width_def unat_ucast_64_32)

lemma bits_of_bound: "bits_of u < 2 ^ width u"
proof (cases u)
  case (UInt32 w)
  have "unat w < 2 ^ LENGTH(32)" by (rule unsigned_less)
  with UInt32 show ?thesis by simp
next
  case (UInt64 w)
  have "unat w < 2 ^ LENGTH(64)" by (rule unsigned_less)
  with UInt64 show ?thesis by simp
qed

lemma unat_ucast_32_64: "unat (ucast (w :: 32 word) :: 64 word) = unat w"
proof -
  have "unat w < 2 ^ LENGTH(32)" by (rule unsigned_less)
  then have "unat w < 2 ^ 64" by simp
  then have "take_bit 64 (unat w) = unat w" by (simp add: take_bit_nat_eq_self)
  then show ?thesis by (simp add: unsigned_ucast_eq)
qed

lemma unat_to_uintptr: "unat (to_uintptr u) = bits_of u"
  by (cases u) (simp_all add: unat_ucast_32_64)

text \<open>
  Claim C7: \<^verbatim>\<open>guest_layout<T*>\<close> (and \<^verbatim>\<open>guest_layout<T* const>\<close>, whose body is the
  same) has the single member \<^verbatim>\<open>data\<close>, an unsigned integer as wide as a guest
  pointer: 32 bits when \<^verbatim>\<open>IS_32BIT_THUNK\<close> is defined, 64 bits otherwise. Every
  operation that produces or touches a wrapper keeps that: \<^verbatim>\<open>to_guest\<close> and
  \<^verbatim>\<open>operator=\<close> store the address reduced to that width, and \<^verbatim>\<open>get_pointer\<close>
  reads the member, zero-extended, and leaves the wrapper unchanged.
\<close>

theorem guest_layout_ptr_invariant:
  "guest_layout_ptr_ok is32 (to_guest_ptr is32 h) \<and>
   bits_of (gdata (to_guest_ptr is32 h)) = unat (hdata h) mod 2 ^ guest_pointer_width is32 \<and>
   (\<forall>g'. guest_layout_ptr_assign is32 T g p = Inr g' \<longrightarrow>
          guest_layout_ptr_ok is32 g' \<and>
          bits_of (gdata g') = unat p mod 2 ^ guest_pointer_width is32) \<and>
   (guest_layout_ptr_ok is32 g \<longrightarrow>
      snd (get_pointer g) = g \<and>
      unat (fst (get_pointer g)) = bits_of (gdata g) \<and>
      bits_of (gdata g) < 2 ^ guest_pointer_width is32)"
proof (intro conjI allI impI)
  show "guest_layout_ptr_ok is32 (to_guest_ptr is32 h)"
    by (simp add: guest_layout_ptr_ok_def to_guest_ptr_def to_type_ok)
  show "bits_of (gdata (to_guest_ptr is32 h)) = unat (hdata h) mod 2 ^ guest_pointer_width is32"
    by (simp add: to_guest_ptr_def bits_of_to_type)
next
  fix g' assume a: "guest_layout_ptr_assign is32 T g p = Inr g'"
  then have g': "g' = g\<lparr>gdata := to_type is32 p\<rparr>"
    by (simp add: guest_layout_ptr_assign_def split: if_splits)
  show "guest_layout_ptr_ok is32 g'"
    by (simp add: g' guest_layout_ptr_ok_def to_type_ok)
  show "bits_of (gdata g') = unat p mod 2 ^ guest_pointer_width is32"
    by (simp add: g' bits_of_to_type)
next
  assume ok: "guest_layout_ptr_ok is32 g"
  show "snd (get_pointer g) = g" by (simp add: get_pointer_def)
  show "unat (fst (get_pointer g)) = bits_of (gdata g)"
    by (simp add: get_pointer_def unat_to_uintptr)
  from ok bits_of_bound [of "gdata g"]
  show "bits_of (gdata g) < 2 ^ guest_pointer_width is32"
    by (simp add: guest_layout_ptr_ok_def)
qed

theorem guest_layout_ptr_invariant_witness:
  "guest_layout_ptr_ok True (to_guest_ptr True \<lparr>hdata = 0x7F0012345678\<rparr>) \<and>
   bits_of (gdata (to_guest_ptr True \<lparr>hdata = 0x7F0012345678\<rparr>)) = 0x12345678 \<and>
   guest_layout_ptr_assign True (TFunction TInt [TChar, TChar]) \<lparr>gdata = UInt32 0\<rparr> 0x7F0012345678
     = Inr \<lparr>gdata = UInt32 0x12345678\<rparr> \<and>
   guest_layout_ptr_ok True \<lparr>gdata = UInt32 0x12345678\<rparr> \<and>
   fst (get_pointer \<lparr>gdata = UInt32 0x12345678\<rparr>) = 0x12345678"
  using guest_layout_ptr_invariant
    [of True "\<lparr>hdata = 0x7F0012345678\<rparr>" "TFunction TInt [TChar, TChar]" "\<lparr>gdata = UInt32 0\<rparr>"
        "0x7F0012345678"]
  by (simp add: guest_layout_ptr_assign_def to_type_def guest_layout_ptr_ok_def
      guest_pointer_width_def get_pointer_def to_guest_ptr_def)

section \<open>Properties of the scalar conversion\<close>

lemma static_cast_same_size:
  assumes "gl_data g < 2 ^ (8 * gl_sizeof g)" and "sizeof T = gl_sizeof g"
  shows "static_cast_enum T g = gl_data g"
proof -
  let ?m = "(2::int) ^ (8 * gl_sizeof g)"
  have d: "int (gl_data g) < ?m" using assms(1)
    by (metis of_nat_less_iff of_nat_numeral of_nat_power)
  have "gl_value g mod ?m = int (gl_data g)"
  proof (cases "gl_signed g \<and> 2 ^ (8 * gl_sizeof g - 1) \<le> gl_data g")
    case True
    then have "gl_value g = int (gl_data g) - ?m" by (simp add: gl_value_def)
    then have "gl_value g mod ?m = int (gl_data g) mod ?m" by simp
    with d show ?thesis by simp
  next
    case False
    then have "gl_value g = int (gl_data g)" by (auto simp add: gl_value_def)
    with d show ?thesis by simp
  qed
  with assms(2) show ?thesis by (simp add: static_cast_enum_def)
qed

text \<open>
  Claim C10, as stated, fails for enumerations: the constructor selected by
  \<^verbatim>\<open>requires (std::is_enum_v<T>)\<close> has no size assertion. For \<^verbatim>\<open>enum E : long\<close> (8 bytes
  on the host) and a 4-byte signed guest member holding the bits \<open>0xFFFFFFFF\<close>, the
  construction is defined although the sizes differ, and the stored bits become
  \<open>0xFFFFFFFFFFFFFFFF\<close>.
\<close>

theorem host_layout_ctor_enum_counterexample:
  "sizeof (TEnum ''E'' TLong) \<noteq> gl_sizeof \<lparr>gl_sizeof = 4, gl_signed = True, gl_data = 0xFFFFFFFF\<rparr> \<and>
   host_layout_ctor (TEnum ''E'' TLong) \<lparr>gl_sizeof = 4, gl_signed = True, gl_data = 0xFFFFFFFF\<rparr>
     = Inr \<lparr>hl_data = 0xFFFFFFFFFFFFFFFF\<rparr>"
  by (simp add: host_layout_ctor_def host_layout_generic_def static_cast_enum_def gl_value_def)

text \<open>
  Claim C10, amended: for an arithmetic type \<open>T\<close>, constructing \<^verbatim>\<open>host_layout<T>\<close> from
  \<^verbatim>\<open>guest_layout<T>\<close> is defined exactly when \<^verbatim>\<open>sizeof(data) == sizeof(from)\<close> (a
  static assertion fails otherwise), and the member then equals \<^verbatim>\<open>from.data\<close>. For an
  enumeration \<open>T\<close> the construction is defined whatever the sizes, the member is
  \<^verbatim>\<open>static_cast<T>(from.data)\<close>, and the stored bits are unchanged whenever the two sizes
  are equal.
\<close>

theorem host_layout_ctor_scalar:
  assumes "is_arithmetic_v T \<or> is_enum_v T"
      and "gl_data from < 2 ^ (8 * gl_sizeof from)"
  shows "(\<not> is_enum_v T \<longrightarrow>
            host_layout_ctor T from =
              (if sizeof T = gl_sizeof from then Inr \<lparr>hl_data = gl_data from\<rparr>
               else Inl HostLayoutSizeMismatch))
       \<and> (is_enum_v T \<longrightarrow>
            host_layout_ctor T from = Inr \<lparr>hl_data = static_cast_enum T from\<rparr>
            \<and> (sizeof T = gl_sizeof from \<longrightarrow> static_cast_enum T from = gl_data from))"
proof -
  from assms(1) have g: "host_layout_generic T = Inr T"
    by (cases T) (simp_all add: host_layout_generic_def)
  from assms(1) have np: "\<not> is_pointer_v T"
    by (cases T) simp_all
  show ?thesis
    using g np assms(2) by (simp add: host_layout_ctor_def static_cast_same_size)
qed

theorem host_layout_ctor_scalar_witness:
  "host_layout_ctor TInt \<lparr>gl_sizeof = 4, gl_signed = True, gl_data = 0xFFFFFFFE\<rparr>
     = Inr \<lparr>hl_data = 0xFFFFFFFE\<rparr>
   \<and> host_layout_ctor TInt \<lparr>gl_sizeof = 8, gl_signed = True, gl_data = 5\<rparr>
     = Inl HostLayoutSizeMismatch
   \<and> host_layout_ctor (TEnum ''E'' TInt) \<lparr>gl_sizeof = 4, gl_signed = True, gl_data = 0xFFFFFFFE\<rparr>
     = Inr \<lparr>hl_data = 0xFFFFFFFE\<rparr>"
  using host_layout_ctor_scalar [of TInt "\<lparr>gl_sizeof = 4, gl_signed = True, gl_data = 0xFFFFFFFE\<rparr>"]
        host_layout_ctor_scalar [of TInt "\<lparr>gl_sizeof = 8, gl_signed = True, gl_data = 5\<rparr>"]
        host_layout_ctor_scalar
          [of "TEnum ''E'' TInt" "\<lparr>gl_sizeof = 4, gl_signed = True, gl_data = 0xFFFFFFFE\<rparr>"]
  by simp

section \<open>Properties of the callback entry points\<close>

lemma CBIndex_member_allowed:
  assumes "n \<le> 18 \<or> n = 23"
  shows "CBIndex_member n = Some n"
proof (cases "n = 23")
  case True
  then show ?thesis by (simp add: CBIndex_member_def)
next
  case False
  with assms have "n \<le> 18" by simp
  then show ?thesis
    unfolding CBIndex_member_def by (simp split: if_splits) arith
qed

lemma first_error_None_iff:
  "first_error xs = None \<longleftrightarrow> (\<forall>x \<in> set xs. \<exists>y. x = Inr y)"
proof (induction xs)
  case Nil
  then show ?case by simp
next
  case (Cons x xs)
  then show ?case by (cases x) auto
qed

lemma sequence_length:
  "sequence xs = Inr ys \<Longrightarrow> length ys = length xs"
proof (induction xs arbitrary: ys)
  case Nil
  then show ?case by simp
next
  case (Cons x xs)
  then show ?case by (cases x) (auto split: sum.splits)
qed

lemma Call_check_Inr_iff:
  "(\<exists>k. Call_check generated is32 Annotations Args = Inr k) \<longleftrightarrow>
     (length Args \<le> 18 \<or> length Args = 23) \<and> length Annotations = length Args
     \<and> (\<forall>T \<in> set Args. \<exists>s. guest_layout_sizeof generated is32 T = Inr s)
     \<and> (\<forall>(a, T) \<in> set (zip Annotations Args). Projection_check generated is32 a T = Inr ())"
proof -
  have a: "first_error (map (guest_layout_sizeof generated is32) Args) = None \<longleftrightarrow>
           (\<forall>T \<in> set Args. \<exists>s. guest_layout_sizeof generated is32 T = Inr s)"
    by (auto simp add: first_error_None_iff)
  have b: "first_error (map (\<lambda>(Annotation, T). Projection_check generated is32 Annotation T)
              (zip Annotations Args)) = None \<longleftrightarrow>
           (\<forall>(a, T) \<in> set (zip Annotations Args). Projection_check generated is32 a T = Inr ())"
    by (auto simp add: first_error_None_iff)
  show ?thesis
    unfolding a [symmetric] b [symmetric]
    by (auto simp add: Call_check_def Let_def split: option.splits if_splits)
qed

lemma Call_check_Inr_index:
  assumes "Call_check generated is32 Annotations Args = Inr k"
  shows "k = Some (length Args)"
proof -
  from assms have n: "length Args \<le> 18 \<or> length Args = 23"
    by (auto simp add: Call_check_def Let_def split: option.splits if_splits)
  from assms have "k = CBIndex_member (length Args)"
    by (auto simp add: Call_check_def Let_def split: option.splits if_splits)
  with n show ?thesis by (simp add: CBIndex_member_allowed)
qed

lemma Call_result:
  assumes "Call host_code convert generated is32 result_is_void Annotations Args args = Inr (args', calls)"
  shows "\<exists>cb projected. slots args ! length Args = Word cb \<and> last (slots args) = Word cb
           \<and> length projected = length Args \<and> calls = [(cb, projected, cb)]
           \<and> args' = (if result_is_void then args else args\<lparr>rv := host_code cb projected cb\<rparr>)"
proof -
  from assms obtain k where k: "Call_check generated is32 Annotations Args = Inr k"
    by (auto simp add: Call_def split: sum.splits)
  then have kn: "k = Some (length Args)" by (rule Call_check_Inr_index)
  from k have la: "length Annotations = length Args"
    using Call_check_Inr_iff [of generated is32 Annotations Args] by blast
  from assms k kn have len: "length (slots args) = Suc (length Args)"
    by (auto simp add: Call_def split: if_splits)
  then have ne: "slots args \<noteq> []" by auto
  from len ne have lastn: "last (slots args) = slots args ! length Args"
    by (simp add: last_conv_nth)
  from assms k kn len lastn obtain cb projected where
    cb: "slots args ! length Args = Word cb"
    and sq: "sequence (map (\<lambda>(Annotation, T, data). Projection convert Annotation T data)
                (zip Annotations (zip Args (slots args)))) = Inr projected"
    and res: "args' = (if result_is_void then args else args\<lparr>rv := host_code cb projected cb\<rparr>)"
    and cl: "calls = [(cb, projected, cb)]"
    by (auto simp add: Call_def split: slot.splits sum.splits if_splits)
  from sequence_length [OF sq] la len have "length projected = length Args" by simp
  with cb lastn res cl show ?thesis by auto
qed

text \<open>
  Claim C2, as stated, fails at \<open>n = 1\<close>: for the single argument type
  \<^verbatim>\<open>int (*)(char, char)\<close> without the passthrough annotation, \<^verbatim>\<open>Projection\<close>
  instantiates \<^verbatim>\<open>host_layout<int (*)(char, char)>\<close>, whose static assertion rejects
  function pointees, so \<^verbatim>\<open>Call\<close> does not compile although \<open>n \<le> 18\<close>.
\<close>

theorem Call_function_pointer_counterexample:
  "Call_check (\<lambda>T. None) False [\<lparr>is_passthrough = False, assume_compatible = False\<rparr>]
     [TPointer (TFunction TInt [TChar, TChar])] = Inl HostLayoutOfFunctionPointer"
  by (simp add: Call_check_def guest_layout_sizeof_def guest_layout_generic_def
      Projection_check_def host_layout_generic_def)

text \<open>
  Claim C2, amended: for every number \<open>n\<close> of arguments outside \<open>{0, ..., 18, 23}\<close>
  \<^verbatim>\<open>Call\<close> fails to compile. \<^verbatim>\<open>Call<Annotations...>\<close> compiles exactly when \<open>n \<le> 18\<close>
  or \<open>n = 23\<close>, there is one annotation per argument, \<^verbatim>\<open>guest_layout<A>\<close> is complete
  for every argument type \<open>A\<close>, and \<^verbatim>\<open>Projection\<close> compiles for every argument (for an
  argument that is not passthrough, \<^verbatim>\<open>host_layout<A>\<close> can be constructed from
  \<^verbatim>\<open>guest_layout<A>\<close>). Whenever it compiles, the callback target is read from slot
  \<open>n\<close> of the packed record, the slot after the last argument, and a run of \<^verbatim>\<open>Call\<close>
  makes one call, to the address in that slot.
\<close>

theorem Call_wellformed:
  "(\<not> (length Args \<le> 18 \<or> length Args = 23) \<longrightarrow>
      (\<exists>e. Call_check generated is32 Annotations Args = Inl e))
   \<and> ((\<exists>k. Call_check generated is32 Annotations Args = Inr k) \<longleftrightarrow>
        (length Args \<le> 18 \<or> length Args = 23) \<and> length Annotations = length Args
        \<and> (\<forall>T \<in> set Args. \<exists>s. guest_layout_sizeof generated is32 T = Inr s)
        \<and> (\<forall>(a, T) \<in> set (zip Annotations Args). Projection_check generated is32 a T = Inr ()))
   \<and> (\<forall>k. Call_check generated is32 Annotations Args = Inr k \<longrightarrow> k = Some (length Args))
   \<and> (\<forall>args' calls.
        Call host_code convert generated is32 result_is_void Annotations Args args
          = Inr (args', calls) \<longrightarrow>
        (\<exists>cb projected.
           slots args ! length Args = Word cb \<and> last (slots args) = Word cb
           \<and> length projected = length Args \<and> calls = [(cb, projected, cb)]
           \<and> args' = (if result_is_void then args
                      else args\<lparr>rv := host_code cb projected cb\<rparr>)))"
proof (intro conjI impI allI)
  assume out: "\<not> (length Args \<le> 18 \<or> length Args = 23)"
  have "\<not> (\<exists>k. Call_check generated is32 Annotations Args = Inr k)"
    using out Call_check_Inr_iff [of generated is32 Annotations Args] by blast
  then show "\<exists>e. Call_check generated is32 Annotations Args = Inl e"
    by (cases "Call_check generated is32 Annotations Args") auto
next
  show "(\<exists>k. Call_check generated is32 Annotations Args = Inr k) \<longleftrightarrow>
        (length Args \<le> 18 \<or> length Args = 23) \<and> length Annotations = length Args
        \<and> (\<forall>T \<in> set Args. \<exists>s. guest_layout_sizeof generated is32 T = Inr s)
        \<and> (\<forall>(a, T) \<in> set (zip Annotations Args). Projection_check generated is32 a T = Inr ())"
    by (rule Call_check_Inr_iff)
next
  fix k assume "Call_check generated is32 Annotations Args = Inr k"
  then show "k = Some (length Args)" by (rule Call_check_Inr_index)
next
  fix args' calls
  assume "Call host_code convert generated is32 result_is_void Annotations Args args
            = Inr (args', calls)"
  then show "\<exists>cb projected.
           slots args ! length Args = Word cb \<and> last (slots args) = Word cb
           \<and> length projected = length Args \<and> calls = [(cb, projected, cb)]
           \<and> args' = (if result_is_void then args
                      else args\<lparr>rv := host_code cb projected cb\<rparr>)"
    by (rule Call_result)
qed

theorem Call_wellformed_witness:
  "Call_check (\<lambda>T. None) False
     [\<lparr>is_passthrough = False, assume_compatible = False\<rparr>,
      \<lparr>is_passthrough = True, assume_compatible = False\<rparr>]
     [TInt, TPointer (TFunction TInt [TChar, TChar])] = Inr (Some 2)
   \<and> Call (\<lambda>cb ps target. Word (cb + target)) (\<lambda>T k. k) (\<lambda>T. None) False False
     [\<lparr>is_passthrough = False, assume_compatible = False\<rparr>,
      \<lparr>is_passthrough = True, assume_compatible = False\<rparr>]
     [TInt, TPointer (TFunction TInt [TChar, TChar])]
     \<lparr>rv = Word 0,
      slots = [GScalar \<lparr>gl_sizeof = 4, gl_signed = True, gl_data = 7\<rparr>,
               GPointer \<lparr>gdata = UInt64 0x4000\<rparr>, Word 0x9000]\<rparr>
     = Inr (\<lparr>rv = Word 0x12000,
             slots = [GScalar \<lparr>gl_sizeof = 4, gl_signed = True, gl_data = 7\<rparr>,
                      GPointer \<lparr>gdata = UInt64 0x4000\<rparr>, Word 0x9000]\<rparr>,
            [(0x9000, [HScalar \<lparr>hl_data = 7\<rparr>, HGuest (GPointer \<lparr>gdata = UInt64 0x4000\<rparr>)],
              0x9000)])"
  using Call_wellformed [of "[TInt, TPointer (TFunction TInt [TChar, TChar])]" "\<lambda>T. None" False
     "[\<lparr>is_passthrough = False, assume_compatible = False\<rparr>,
       \<lparr>is_passthrough = True, assume_compatible = False\<rparr>]"
     "\<lambda>cb ps target. Word (cb + target)" "\<lambda>T k. k" False
     "\<lparr>rv = Word 0,
      slots = [GScalar \<lparr>gl_sizeof = 4, gl_signed = True, gl_data = 7\<rparr>,
               GPointer \<lparr>gdata = UInt64 0x4000\<rparr>, Word 0x9000]\<rparr>"]
  by (simp add: Call_def Call_check_def guest_layout_sizeof_def guest_layout_generic_def
      Projection_check_def host_layout_generic_def CBIndex_member_def Projection_def
      host_layout_ctor_def)

text \<open>
  Claim C6: on x86-64 (resp. AArch64) \<^verbatim>\<open>CallGuestPtr\<close> takes the \<^verbatim>\<open>GuestcallInfo\<close>
  pointer from \<^verbatim>\<open>r11\<close> (resp. \<^verbatim>\<open>x11\<close>), packs its arguments into a
  \<^verbatim>\<open>PackedArguments\<close> record, calls
  \<^verbatim>\<open>CallCallback(GuestUnpacker, GuestTarget, &packed_args)\<close> once, and returns the
  \<^verbatim>\<open>rv\<close> of the record after the call exactly when \<^verbatim>\<open>Result\<close> is not void.
\<close>

theorem CallGuestPtr_behaviour:
  assumes "(arch = M_X86_64 \<and> guestcall = regs R11) \<or> (arch = M_ARM_64 \<and> guestcall = regs X11)"
      and "mem guestcall = Some info"
  shows "CallGuestPtr arch result_is_void regs mem rv0 args calls =
           Inr (if result_is_void then None
                else Some (rv (CallCallback info (GuestUnpacker info) (GuestTarget info)
                                 \<lparr>rv = rv0, slots = args\<rparr>)),
                calls @ [(GuestUnpacker info, GuestTarget info, \<lparr>rv = rv0, slots = args\<rparr>)])"
  using assms
  by (auto simp add: CallGuestPtr_def LOAD_INTERNAL_GUESTPTR_VIA_CUSTOM_ABI_def Let_def)

theorem CallGuestPtr_behaviour_witness:
  "CallGuestPtr M_X86_64 False (\<lambda>r. case r of R11 \<Rightarrow> 0x1000 | X11 \<Rightarrow> 0)
     [0x1000 \<mapsto> \<lparr>HostPacker = 1, CallCallback = (\<lambda>u t p. p\<lparr>rv := 42\<rparr>),
                  GuestUnpacker = 2, GuestTarget = 3\<rparr>]
     (0 :: nat) [7, 8] []
   = Inr (Some 42, [(2, 3, \<lparr>rv = 0, slots = [7, 8]\<rparr>)])"
  using CallGuestPtr_behaviour
    [of M_X86_64 "0x1000" "\<lambda>r. case r of R11 \<Rightarrow> 0x1000 | X11 \<Rightarrow> 0"
        "[0x1000 \<mapsto> \<lparr>HostPacker = 1, CallCallback = (\<lambda>u t p. p\<lparr>rv := 42\<rparr>),
                     GuestUnpacker = 2, GuestTarget = 3\<rparr>]"
        "\<lparr>HostPacker = 1, CallCallback = (\<lambda>u t p. p\<lparr>rv := 42\<rparr>),
          GuestUnpacker = 2, GuestTarget = 3\<rparr>"
        False "0 :: nat" "[7, 8]" "[]"]
  by simp

text \<open>
  Claim C8, as stated, fails on the helpers of Host.h: they call the weak symbol without
  testing it. With \<^verbatim>\<open>FEXCore::MakeHostTrampolineForGuestFunction\<close> unresolved,
  \<^verbatim>\<open>MakeHostTrampolineForGuestFunctionAt\<close> calls through the null pointer.
\<close>

theorem MakeHostTrampoline_null_counterexample:
  "MakeHostTrampolineForGuestFunctionAt (None :: unit weak_make) 0x1000 0x2000 0x3000 ()
     = Inl CallThroughNullWeakSymbol"
  by (simp add: MakeHostTrampolineForGuestFunctionAt_def)

text \<open>
  Claim C8, amended: the helpers \<^verbatim>\<open>MakeHostTrampolineForGuestFunctionAt\<close> and
  \<^verbatim>\<open>FinalizeHostTrampolineForGuestFunction\<close> (both overloads) call the weakly linked
  primitive unconditionally. When the symbol is resolved it is called once, with the
  address of \<^verbatim>\<open>CallbackUnpack<F>::CallGuestPtr\<close> as host packer; when it is not, the
  call goes through a null pointer.
\<close>

theorem trampoline_helpers_unchecked:
  "MakeHostTrampolineForGuestFunctionAt None hp gt gu s = Inl CallThroughNullWeakSymbol
   \<and> MakeHostTrampolineForGuestFunctionAt (Some f) hp gt gu s = Inr (f hp gt gu s)
   \<and> FinalizeHostTrampolineForGuestFunction None hp t s = Inl CallThroughNullWeakSymbol
   \<and> FinalizeHostTrampolineForGuestFunction (Some h) hp t s = Inr (snd (h t hp s))
   \<and> FinalizeHostTrampolineForGuestFunction_guest None hp g s = Inl CallThroughNullWeakSymbol
   \<and> FinalizeHostTrampolineForGuestFunction_guest (Some h) hp g s
       = Inr (snd (h (to_uintptr (gdata g)) hp s))"
  by (simp add: MakeHostTrampolineForGuestFunctionAt_def
      FinalizeHostTrampolineForGuestFunction_def
      FinalizeHostTrampolineForGuestFunction_guest_def)

theorem trampoline_helpers_unchecked_witness:
  "MakeHostTrampolineForGuestFunctionAt (Some (\<lambda>hp gt gu s. (hp + gt + gu, gt # s))) 1 2 3 []
     = Inr (6, [2])
   \<and> FinalizeHostTrampolineForGuestFunction_guest (Some (\<lambda>t hp s. (t, t # s))) 1
       \<lparr>gdata = UInt32 0x5000\<rparr> [] = Inr [0x5000]"
  using trampoline_helpers_unchecked
    [where hp = 1 and gt = 2 and gu = 3 and s = "[]"
       and f = "\<lambda>hp gt gu s. (hp + gt + gu, gt # s)"
       and h = "\<lambda>t hp s. (t, t # s)" and g = "\<lparr>gdata = UInt32 0x5000\<rparr>"]
  by simp

section \<open>Properties of the generator model\<close>

text \<open>
  Claim C5: for a variadic function annotated with \<^verbatim>\<open>uniform_va_type = T\<close> the guest
  emitter produces the internal packer \<^verbatim>\<open>fexfn_pack_<name>_internal\<close> with the return
  type of the function and its named parameters followed by an \<^verbatim>\<open>unsigned long\<close>
  (the count) and then a \<^verbatim>\<open>T*\<close> (the array). For \<^verbatim>\<open>void func(int arg, ...)\<close> with
  \<^verbatim>\<open>uniform_va_type = char\<close> that is
  \<^verbatim>\<open>void fexfn_pack_func_internal(int, unsigned long, char*)\<close>, which is what the test
  case \<^verbatim>\<open>VariadicFunction\<close> matches.
\<close>

theorem guest_packer_variadic:
  assumes "fn_variadic f" and "uniform_va_type f = Some T"
  shows "guest_packer f =
           Inr \<lparr>decl_name = ''fexfn_pack_'' @ fn_name f @ ''_internal'',
                decl_result = fn_result f,
                decl_params = fn_params f @ [TUnsignedLong, TPointer T]\<rparr>"
  using assms by (simp add: guest_packer_def)

theorem guest_packer_variadic_witness:
  "guest_packer \<lparr>fn_name = ''func'', fn_result = TVoid, fn_params = [TInt], fn_variadic = True,
                  uniform_va_type = Some TChar\<rparr>
     = Inr \<lparr>decl_name = ''fexfn_pack_func_internal'', decl_result = TVoid,
            decl_params = [TInt, TUnsignedLong, TPointer TChar]\<rparr>
   \<and> VariadicFunction_matcher
       \<lparr>decl_name = ''fexfn_pack_func_internal'', decl_result = TVoid,
        decl_params = [TInt, TUnsignedLong, TPointer TChar]\<rparr>"
  using guest_packer_variadic
    [of "\<lparr>fn_name = ''func'', fn_result = TVoid, fn_params = [TInt], fn_variadic = True,
          uniform_va_type = Some TChar\<rparr>" TChar]
  by (simp add: VariadicFunction_matcher_def)

text \<open>
  Claim C3, as stated, fails for enumerations on the host side: the primary template
  \<^verbatim>\<open>host_layout<T>\<close> has no static assertion against \<^verbatim>\<open>std::is_enum_v<T>\<close> (it has a
  constructor for that case), so instantiating it with an enumeration is not an error.
\<close>

theorem host_layout_generic_enum_counterexample:
  "host_layout_generic (TEnum ''E'' TInt) = Inr (TEnum ''E'' TInt)"
  by (simp add: host_layout_generic_def)

text \<open>
  Claim C3, amended: for an aggregate classified Incompatible without an override neither
  \<^verbatim>\<open>guest_layout<A>\<close> nor \<^verbatim>\<open>host_layout<A>\<close> is completely defined and
  \<^verbatim>\<open>to_guest\<close> on \<^verbatim>\<open>host_layout<A>\<close> is deleted, as the test section "Incompatible
  type, unannotated" checks. Instantiating the primary template \<^verbatim>\<open>guest_layout\<close> with a
  class, union or enumeration type is a compile-time error; instantiating the primary
  template \<^verbatim>\<open>host_layout\<close> is one for a class or union type, and is accepted for an
  enumeration.
\<close>

theorem incompatible_layout_wrappers:
  "(\<exists>w. emitted_layout_wrappers Incompatible False = Some w \<and> Incompatible_unannotated_matcher w
        \<and> guest_layout_decl w = IncompleteDeclaration \<and> host_layout_decl w = IncompleteDeclaration)
   \<and> (is_class_v T \<or> is_union_v T \<or> is_enum_v T \<longrightarrow> (\<exists>e. guest_layout_generic is32 T = Inl e))
   \<and> (is_class_v T \<or> is_union_v T \<longrightarrow> (\<exists>e. host_layout_generic T = Inl e))
   \<and> (is_enum_v T \<longrightarrow> host_layout_generic T = Inr T)"
  by (cases T) (simp_all add: guest_layout_generic_def host_layout_generic_def
      Incompatible_unannotated_matcher_def)

theorem incompatible_layout_wrappers_witness:
  "guest_layout_generic True (TStruct ''A'') = Inl GuestLayoutOfClass
   \<and> host_layout_generic (TStruct ''A'') = Inl HostLayoutOfClass
   \<and> guest_layout_generic True (TUnion ''U'') = Inl GuestLayoutOfUnion
   \<and> host_layout_generic (TUnion ''U'') = Inl HostLayoutOfUnion
   \<and> guest_layout_generic True (TEnum ''E'' TInt) = Inl GuestLayoutOfEnum"
  using incompatible_layout_wrappers [of "TStruct ''A''" True]
        incompatible_layout_wrappers [of "TUnion ''U''" True]
        incompatible_layout_wrappers [of "TEnum ''E'' TInt" True]
  by (simp add: guest_layout_generic_def host_layout_generic_def)


end
